theory Spec2Isabelle
  imports Complex_Main "HOL-Library.Char_ord" "HOL-Library.List_Lexorder"
begin

section \<open>Python values and exceptions\<close>

text \<open>
  The values that reach the program from JSON bodies and from data-frame cells.
  A finite float is the rational it denotes; the two non-finite floats that
  \<^verbatim>\<open>json.loads\<close> accepts are separate constructors. A JSON object is the list of its
  items, read with \<^const>\<open>map_of\<close>.
\<close>

datatype pyval =
    PNone
  | PBool bool
  | PInt int
  | PFloat rat
  | PNaN
  | PInf bool
  | PStr string
  | PList "pyval list"
  | PDict "(string \<times> pyval) list"

text \<open>
  Exceptions are values. \<open>HTTPException c\<close> is \<^verbatim>\<open>fastapi.HTTPException(status_code=c)\<close>;
  the others are the built-in exceptions of the same name.
\<close>

datatype exn =
    HTTPException nat
  | KeyError
  | TypeError
  | ValueError
  | OverflowError

section \<open>The delay label (\<^verbatim>\<open>DelayModel._generate_delay_target\<close>)\<close>

text \<open>
  A row of the training frame, as \<^verbatim>\<open>calculate_min_diff\<close> sees it: a map from column
  names to cells. A column that the frame does not have is an unbound name.

  A parsed \<^verbatim>\<open>datetime\<close> is the number of seconds on the naive time line (the format
  \<^verbatim>\<open>'%Y-%m-%d %H:%M:%S'\<close> carries no fraction of a second and no zone), so the
  difference of two of them is the \<^verbatim>\<open>total_seconds()\<close> of their \<^verbatim>\<open>timedelta\<close>.
  The library parser for that format is a parameter \<open>parse\<close>: \<open>None\<close> is its
  \<^verbatim>\<open>ValueError\<close> on a string that does not match.
\<close>

type_synonym row = "string \<rightharpoonup> pyval"
type_synonym datetime = int

definition getitem :: "row \<Rightarrow> string \<Rightarrow> exn + pyval" where
  "getitem r k = (case r k of None \<Rightarrow> Inl KeyError | Some v \<Rightarrow> Inr v)"

text \<open>\<^verbatim>\<open>datetime.strptime(v, fmt)\<close>: a \<^verbatim>\<open>TypeError\<close> unless \<open>v\<close> is a string.\<close>

definition strptime :: "(string \<Rightarrow> datetime option) \<Rightarrow> pyval \<Rightarrow> exn + datetime" where
  "strptime parse v =
     (case v of
        PStr s \<Rightarrow> (case parse s of None \<Rightarrow> Inl ValueError | Some t \<Rightarrow> Inr t)
      | _ \<Rightarrow> Inl TypeError)"

text \<open>The body of the \<^verbatim>\<open>try\<close> block, in the order the source evaluates it.\<close>

definition min_diff_try :: "(string \<Rightarrow> datetime option) \<Rightarrow> row \<Rightarrow> exn + rat" where
  "min_diff_try parse r =
     (case getitem r ''Fecha-O'' of
        Inl e \<Rightarrow> Inl e
      | Inr vo \<Rightarrow>
     (case strptime parse vo of
        Inl e \<Rightarrow> Inl e
      | Inr fecha_o \<Rightarrow>
     (case getitem r ''Fecha-I'' of
        Inl e \<Rightarrow> Inl e
      | Inr vi \<Rightarrow>
     (case strptime parse vi of
        Inl e \<Rightarrow> Inl e
      | Inr fecha_i \<Rightarrow> Inr (of_int (fecha_o - fecha_i) / 60)))))"

text \<open>
  The bare \<^verbatim>\<open>except\<close> turns every exception of the block into the value 0. The
  quotient is the exact rational: the source's float quotient of a whole number of
  seconds by 60 is above 15 exactly when the rational is.
\<close>

definition calculate_min_diff :: "(string \<Rightarrow> datetime option) \<Rightarrow> row \<Rightarrow> rat" where
  "calculate_min_diff parse r =
     (case min_diff_try parse r of Inl e \<Rightarrow> 0 | Inr d \<Rightarrow> d)"

definition threshold_in_minutes :: rat where
  "threshold_in_minutes = 15"

definition delay_of_row :: "(string \<Rightarrow> datetime option) \<Rightarrow> row \<Rightarrow> int" where
  "delay_of_row parse r =
     (if calculate_min_diff parse r > threshold_in_minutes then 1 else 0)"

text \<open>\<^verbatim>\<open>data.apply(calculate_min_diff, axis=1)\<close> followed by \<^verbatim>\<open>np.where\<close>, row by row.\<close>

definition generate_delay_target :: "(string \<Rightarrow> datetime option) \<Rightarrow> row list \<Rightarrow> int list" where
  "generate_delay_target parse data = map (delay_of_row parse) data"

section \<open>The feature encoder (\<^verbatim>\<open>DelayModel.preprocess\<close>)\<close>

text \<open>
  A flight as the encoder reads it: the three columns OPERA, TIPOVUELO and MES. The
  serving path builds such rows in \<^verbatim>\<open>_validate\<close> (MES is an \<^verbatim>\<open>int\<close> there); the
  training frame read from the data file has the same three columns.
\<close>

record flight =
  OPERA :: string
  TIPOVUELO :: string
  MES :: int

text \<open>
  A numeric data frame: the length of its index and its columns in order, each a label
  and one cell per index entry. A dummy cell is written 1 or 0; a pandas release that
  stores dummies as booleans stores \<^verbatim>\<open>True\<close> and \<^verbatim>\<open>False\<close>, which are equal to 1 and 0.
\<close>

record frame =
  nrows :: nat
  columns :: "(string \<times> int list) list"

definition TOP_10_FEATURES :: "string list" where
  "TOP_10_FEATURES =
     [''OPERA_Latin American Wings'',
      ''MES_7'',
      ''MES_10'',
      ''OPERA_Grupo LATAM'',
      ''MES_12'',
      ''TIPOVUELO_I'',
      ''MES_4'',
      ''MES_11'',
      ''OPERA_Sky Airline'',
      ''OPERA_Copa Air'']"

text \<open>\<^verbatim>\<open>str\<close> of an \<^verbatim>\<open>int\<close>, which \<^verbatim>\<open>get_dummies\<close> uses to label the column of a level:
  decimal digits, a minus sign in front of a negative number.\<close>

definition digit_char :: "nat \<Rightarrow> char" where
  "digit_char d = ''0123456789'' ! d"

fun str_nat :: "nat \<Rightarrow> string" where
  "str_nat n = (if n < 10 then [digit_char n] else str_nat (n div 10) @ [digit_char (n mod 10)])"

declare str_nat.simps [simp del]

definition str_int :: "int \<Rightarrow> string" where
  "str_int i = (if i < 0 then CHR ''-'' # str_nat (nat (- i)) else str_nat (nat i))"

text \<open>
  \<^verbatim>\<open>pd.get_dummies(col, prefix=p)\<close> on one column: one indicator column for each value
  that occurs in \<open>col\<close>, in sorted order of the values, labelled \<^verbatim>\<open>p_value\<close>.
\<close>

definition get_dummies :: "('v::linorder \<Rightarrow> string) \<Rightarrow> 'v list \<Rightarrow> string \<Rightarrow> frame" where
  "get_dummies str col prefix =
     \<lparr> nrows = length col,
       columns = map (\<lambda>level. (prefix @ ''_'' @ str level,
                               map (\<lambda>v. if v = level then 1 else 0) col))
                     (sort (remdups col)) \<rparr>"

text \<open>\<^verbatim>\<open>pd.concat([a, b, c], axis=1)\<close> of three frames over the same index.\<close>

definition concat_axis1 :: "frame \<Rightarrow> frame \<Rightarrow> frame \<Rightarrow> frame" where
  "concat_axis1 a b c = \<lparr> nrows = nrows a, columns = columns a @ columns b @ columns c \<rparr>"

text \<open>One pass of the loop over \<^verbatim>\<open>TOP_10_FEATURES\<close>: a label that is not among the
  columns gets a new column of zeros.\<close>

definition add_if_missing :: "frame \<Rightarrow> string \<Rightarrow> frame" where
  "add_if_missing features feature =
     (if feature \<notin> set (map fst (columns features))
      then features\<lparr> columns := columns features @ [(feature, replicate (nrows features) 0)] \<rparr>
      else features)"

text \<open>\<^verbatim>\<open>features[labels]\<close>: the named columns in the order asked for, \<^verbatim>\<open>KeyError\<close> when a
  label is not a column.\<close>

fun select_columns :: "(string \<times> int list) list \<Rightarrow> string list \<Rightarrow> exn + (string \<times> int list) list" where
  "select_columns cs [] = Inr []"
| "select_columns cs (l # ls) =
     (case map_of cs l of
        None \<Rightarrow> Inl KeyError
      | Some c \<Rightarrow>
          (case select_columns cs ls of
             Inl e \<Rightarrow> Inl e
           | Inr sel \<Rightarrow> Inr ((l, c) # sel)))"

definition getitem_labels :: "frame \<Rightarrow> string list \<Rightarrow> exn + frame" where
  "getitem_labels fr ls =
     (case select_columns (columns fr) ls of
        Inl e \<Rightarrow> Inl e
      | Inr sel \<Rightarrow> Inr \<lparr> nrows = nrows fr, columns = sel \<rparr>)"

text \<open>The frame of all dummy columns: the \<^verbatim>\<open>pd.concat\<close> of the three encodings.\<close>

definition dummies :: "'a flight_scheme list \<Rightarrow> frame" where
  "dummies data =
     concat_axis1
       (get_dummies (\<lambda>s. s) (map OPERA data) ''OPERA'')
       (get_dummies (\<lambda>s. s) (map TIPOVUELO data) ''TIPOVUELO'')
       (get_dummies str_int (map MES data) ''MES'')"

text \<open>\<^verbatim>\<open>preprocess(data)\<close> without a target column.\<close>

definition preprocess :: "'a flight_scheme list \<Rightarrow> exn + frame" where
  "preprocess data =
     (let features = dummies data;
          features = foldl add_if_missing features TOP_10_FEATURES
      in getitem_labels features TOP_10_FEATURES)"

text \<open>The feature vector of the record at index \<open>i\<close>, and all of them in index order.\<close>

definition row_at :: "frame \<Rightarrow> nat \<Rightarrow> int list" where
  "row_at fr i = map (\<lambda>c. snd c ! i) (columns fr)"

definition feature_rows :: "frame \<Rightarrow> int list list" where
  "feature_rows fr = map (row_at fr) [0..<nrows fr]"

definition feature_vectors :: "'a flight_scheme list \<Rightarrow> exn + int list list" where
  "feature_vectors data =
     (case preprocess data of Inl e \<Rightarrow> Inl e | Inr fr \<Rightarrow> Inr (feature_rows fr))"

subsection \<open>The encoder in equality-test form\<close>

text \<open>
  The per-record indicator function that the specification describes: each of the ten
  catalog entries is an attribute and a literal, and the indicator is 1 when the
  record's attribute equals the literal, else 0.
\<close>

datatype catalog_entry = Operator string | FlightType string | Month int

definition CATALOG :: "catalog_entry list" where
  "CATALOG =
     [Operator ''Latin American Wings'',
      Month 7,
      Month 10,
      Operator ''Grupo LATAM'',
      Month 12,
      FlightType ''I'',
      Month 4,
      Month 11,
      Operator ''Sky Airline'',
      Operator ''Copa Air'']"

fun entry_label :: "catalog_entry \<Rightarrow> string" where
  "entry_label (Operator l) = ''OPERA_'' @ l"
| "entry_label (FlightType l) = ''TIPOVUELO_'' @ l"
| "entry_label (Month m) = ''MES_'' @ str_int m"

fun indicator :: "catalog_entry \<Rightarrow> 'a flight_scheme \<Rightarrow> int" where
  "indicator (Operator l) r = (if OPERA r = l then 1 else 0)"
| "indicator (FlightType l) r = (if TIPOVUELO r = l then 1 else 0)"
| "indicator (Month m) r = (if MES r = m then 1 else 0)"

definition spec_encode :: "'a flight_scheme \<Rightarrow> int list" where
  "spec_encode r = map (\<lambda>e. indicator e r) CATALOG"

section \<open>Prediction (\<^verbatim>\<open>DelayModel.predict\<close>)\<close>

text \<open>
  The state of a \<^verbatim>\<open>DelayModel\<close> is its \<^verbatim>\<open>_model\<close> attribute: \<open>None\<close>, or a fitted
  classifier of the library. The classifier type \<open>'m\<close> and its \<^verbatim>\<open>predict\<close> method are
  parameters; the method may raise.
\<close>

definition predict :: "('m \<Rightarrow> frame \<Rightarrow> exn + int list) \<Rightarrow> 'm option \<Rightarrow> frame \<Rightarrow> exn + int list" where
  "predict sk_predict model features =
     (case model of
        None \<Rightarrow> Inr (replicate (nrows features) 0)
      | Some m \<Rightarrow> sk_predict m features)"

section \<open>The serving validator (\<^verbatim>\<open>_validate\<close>) and \<^verbatim>\<open>post_predict\<close>\<close>

subsection \<open>The built-in \<^verbatim>\<open>int\<close>\<close>

text \<open>
  \<^verbatim>\<open>int(s)\<close> for a string of ASCII characters: white space, an optional sign, decimal
  digits with single underscores between them, white space; anything else is a
  \<^verbatim>\<open>ValueError\<close>. (The interpreter's configurable limit on the number of digits is not
  modelled.)
\<close>

definition is_space :: "char \<Rightarrow> bool" where
  "is_space c = (c \<in> set [CHR '' '', CHR 0x09, CHR 0x0A, CHR 0x0B, CHR 0x0C, CHR 0x0D])"

definition is_digit :: "char \<Rightarrow> bool" where
  "is_digit c = (c \<in> set ''0123456789'')"

definition digits_value :: "string \<Rightarrow> nat" where
  "digits_value s = foldl (\<lambda>a c. 10 * a + (of_char c - 48)) 0 s"

fun double_underscore :: "string \<Rightarrow> bool" where
  "double_underscore (a # b # cs) =
     ((a = CHR ''_'' \<and> b = CHR ''_'') \<or> double_underscore (b # cs))"
| "double_underscore _ = False"

definition int_of_str :: "string \<Rightarrow> exn + int" where
  "int_of_str s =
     (let s1 = dropWhile is_space s;
          neg = (s1 \<noteq> [] \<and> hd s1 = CHR ''-'');
          s2 = (if s1 \<noteq> [] \<and> (hd s1 = CHR ''+'' \<or> hd s1 = CHR ''-'') then tl s1 else s1);
          body = takeWhile (\<lambda>c. is_digit c \<or> c = CHR ''_'') s2;
          rest = dropWhile (\<lambda>c. is_digit c \<or> c = CHR ''_'') s2
      in if body = [] \<or> hd body = CHR ''_'' \<or> last body = CHR ''_''
            \<or> double_underscore body \<or> \<not> list_all is_space rest
         then Inl ValueError
         else Inr ((if neg then - 1 else 1) * int (digits_value (filter is_digit body))))"

text \<open>\<^verbatim>\<open>int(v)\<close>: a float is truncated towards zero.\<close>

fun py_int :: "pyval \<Rightarrow> exn + int" where
  "py_int (PInt i) = Inr i"
| "py_int (PBool b) = Inr (if b then 1 else 0)"
| "py_int (PFloat q) = Inr (if 0 \<le> q then \<lfloor>q\<rfloor> else \<lceil>q\<rceil>)"
| "py_int PNaN = Inl ValueError"
| "py_int (PInf b) = Inl OverflowError"
| "py_int (PStr s) = int_of_str s"
| "py_int PNone = Inl TypeError"
| "py_int (PList vs) = Inl TypeError"
| "py_int (PDict kvs) = Inl TypeError"

subsection \<open>Membership and subscription\<close>

text \<open>\<^verbatim>\<open>k in s\<close> for two strings: \<open>k\<close> occurs in \<open>s\<close>.\<close>

fun is_substring :: "string \<Rightarrow> string \<Rightarrow> bool" where
  "is_substring k [] = (k = [])"
| "is_substring k (c # cs) = (take (length k) (c # cs) = k \<or> is_substring k cs)"

text \<open>\<^verbatim>\<open>k in f\<close> for a string \<open>k\<close>: a key of a dict, an element of a list, a substring of
  a string; the other values are not containers.\<close>

fun contains :: "pyval \<Rightarrow> string \<Rightarrow> exn + bool" where
  "contains (PDict kvs) k = Inr (map_of kvs k \<noteq> None)"
| "contains (PList vs) k = Inr (PStr k \<in> set vs)"
| "contains (PStr s) k = Inr (is_substring k s)"
| "contains _ k = Inl TypeError"

text \<open>\<^verbatim>\<open>all(k in f for k in ks)\<close>, which stops at the first key that is not in \<open>f\<close>.\<close>

fun all_in :: "pyval \<Rightarrow> string list \<Rightarrow> exn + bool" where
  "all_in f [] = Inr True"
| "all_in f (k # ks) =
     (case contains f k of
        Inl e \<Rightarrow> Inl e
      | Inr b \<Rightarrow> if b then all_in f ks else Inr False)"

text \<open>\<^verbatim>\<open>f[k]\<close> for a string \<open>k\<close>: only a dict can be subscripted with a string.\<close>

fun subscript :: "pyval \<Rightarrow> string \<Rightarrow> exn + pyval" where
  "subscript (PDict kvs) k = (case map_of kvs k of None \<Rightarrow> Inl KeyError | Some v \<Rightarrow> Inr v)"
| "subscript _ k = Inl TypeError"

text \<open>\<^verbatim>\<open>v in S\<close> for a set \<open>S\<close> of strings: lists and dicts are unhashable, and a hashable
  value that is not a string is equal to no string.\<close>

fun in_str_set :: "pyval \<Rightarrow> string list \<Rightarrow> exn + bool" where
  "in_str_set (PStr s) S = Inr (s \<in> set S)"
| "in_str_set (PList vs) S = Inl TypeError"
| "in_str_set (PDict kvs) S = Inl TypeError"
| "in_str_set _ S = Inr False"

fun str_value :: "pyval \<Rightarrow> string" where
  "str_value (PStr s) = s"
| "str_value _ = []"

subsection \<open>\<^verbatim>\<open>_validate\<close>\<close>

definition valid_ops :: "string list" where
  "valid_ops =
     [''Aerolineas Argentinas'',
      ''Grupo LATAM'',
      ''Sky Airline'',
      ''Copa Air'',
      ''Latin American Wings'']"

text \<open>
  The body of the loop for one element \<open>f\<close> of the list: the exception it raises, or the
  row it appends. The three tests of the \<^verbatim>\<open>or\<close> are evaluated left to right and the
  first one that holds raises the 400. Where the row is built both \<open>opera\<close> and \<open>tipo\<close>
  are strings, since they passed the membership tests.
\<close>

definition validate_flight :: "pyval \<Rightarrow> exn + flight" where
  "validate_flight f =
     (case all_in f [''OPERA'', ''TIPOVUELO'', ''MES''] of
        Inl e \<Rightarrow> Inl e
      | Inr present \<Rightarrow>
     if \<not> present then Inl (HTTPException 400) else
     (case subscript f ''OPERA'' of
        Inl e \<Rightarrow> Inl e
      | Inr opera \<Rightarrow>
     (case subscript f ''TIPOVUELO'' of
        Inl e \<Rightarrow> Inl e
      | Inr tipo \<Rightarrow>
     (case subscript f ''MES'' of
        Inl e \<Rightarrow> Inl e
      | Inr mes \<Rightarrow>
     (case in_str_set opera valid_ops of
        Inl e \<Rightarrow> Inl e
      | Inr opera_ok \<Rightarrow>
     if \<not> opera_ok then Inl (HTTPException 400) else
     (case in_str_set tipo [''I'', ''N''] of
        Inl e \<Rightarrow> Inl e
      | Inr tipo_ok \<Rightarrow>
     if \<not> tipo_ok then Inl (HTTPException 400) else
     (case py_int mes of
        Inl e \<Rightarrow> Inl e
      | Inr m \<Rightarrow>
     if \<not> (1 \<le> m \<and> m \<le> 12) then Inl (HTTPException 400)
     else Inr \<lparr> OPERA = str_value opera, TIPOVUELO = str_value tipo, MES = m \<rparr>)))))))"

text \<open>The loop over \<^verbatim>\<open>payload["flights"]\<close>, with the rows appended so far.\<close>

fun validate_loop :: "pyval list \<Rightarrow> flight list \<Rightarrow> exn + flight list" where
  "validate_loop [] rows = Inr rows"
| "validate_loop (f # fs) rows =
     (case validate_flight f of
        Inl e \<Rightarrow> Inl e
      | Inr r \<Rightarrow> validate_loop fs (rows @ [r]))"

definition validate :: "(string \<rightharpoonup> pyval) \<Rightarrow> exn + flight list" where
  "validate payload =
     (case payload ''flights'' of
        Some (PList fs) \<Rightarrow> validate_loop fs []
      | _ \<Rightarrow> Inl (HTTPException 400))"

subsection \<open>\<^verbatim>\<open>post_predict\<close>\<close>

text \<open>\<^verbatim>\<open>pd.DataFrame(rows)\<close> followed by \<^verbatim>\<open>preprocess\<close>: the frame built from an
  empty list has no columns, so that reading its OPERA column is a \<^verbatim>\<open>KeyError\<close>.\<close>

definition preprocess_rows :: "flight list \<Rightarrow> exn + frame" where
  "preprocess_rows rows = (if rows = [] then Inl KeyError else preprocess rows)"

definition post_predict ::
  "('m \<Rightarrow> frame \<Rightarrow> exn + int list) \<Rightarrow> 'm option \<Rightarrow> (string \<rightharpoonup> pyval) \<Rightarrow> exn + int list" where
  "post_predict sk_predict model payload =
     (case validate payload of
        Inl e \<Rightarrow> Inl e
      | Inr rows \<Rightarrow>
     (case preprocess_rows rows of
        Inl e \<Rightarrow> Inl e
      | Inr features \<Rightarrow> predict sk_predict model features))"

section \<open>Notions used to state the properties\<close>

subsection \<open>Cells of the training frame\<close>

text \<open>A cell that cannot be read as a string: the column is absent, or the cell holds
  something other than a string.\<close>

definition absent_or_not_str :: "pyval option \<Rightarrow> bool" where
  "absent_or_not_str c =
     (case c of None \<Rightarrow> True | Some (PStr s) \<Rightarrow> False | Some _ \<Rightarrow> True)"

text \<open>A cell that holds a string which the parser rejects.\<close>

definition unparseable :: "(string \<Rightarrow> datetime option) \<Rightarrow> pyval option \<Rightarrow> bool" where
  "unparseable parse c = (case c of Some (PStr s) \<Rightarrow> parse s = None | _ \<Rightarrow> False)"

text \<open>Four clock readings of one morning, as seconds after ten o'clock: an instance of
  the parser parameter for the examples.\<close>

definition morning_clock :: "string \<Rightarrow> datetime option" where
  "morning_clock = map_of
     [(''2017-01-01 10:00:00'', 0),
      (''2017-01-01 10:15:00'', 900),
      (''2017-01-01 10:16:00'', 960),
      (''2017-01-01 09:55:00'', - 300)]"

subsection \<open>Flight records of a request\<close>

text \<open>The JSON object \<^verbatim>\<open>{"OPERA": opera, "TIPOVUELO": tipo, "MES": mes}\<close>.\<close>

definition flight_json :: "string \<Rightarrow> string \<Rightarrow> pyval \<Rightarrow> pyval" where
  "flight_json opera tipo mes =
     PDict [(''OPERA'', PStr opera), (''TIPOVUELO'', PStr tipo), (''MES'', mes)]"

text \<open>The value of a key of a record, when the record is an object that has the key.\<close>

fun field :: "pyval \<Rightarrow> string \<Rightarrow> pyval option" where
  "field (PDict kvs) k = map_of kvs k"
| "field _ k = None"

fun str_in :: "pyval option \<Rightarrow> string list \<Rightarrow> bool" where
  "str_in (Some (PStr s)) S = (s \<in> set S)"
| "str_in _ S = False"

text \<open>
  Validity of a record as the specification words it: the operator is one of the five
  carriers, the flight type is I or N, the month is an integer in [1,12].
\<close>

fun month_is_integer_1_12 :: "pyval option \<Rightarrow> bool" where
  "month_is_integer_1_12 (Some (PInt m)) = (1 \<le> m \<and> m \<le> 12)"
| "month_is_integer_1_12 _ = False"

definition spec_valid :: "pyval \<Rightarrow> bool" where
  "spec_valid f =
     (str_in (field f ''OPERA'') valid_ops
      \<and> str_in (field f ''TIPOVUELO'') [''I'', ''N'']
      \<and> month_is_integer_1_12 (field f ''MES''))"

text \<open>
  Validity of a record as the validator tests it: the three keys are present, the
  operator is one of the five carriers, the flight type is I or N, and \<^verbatim>\<open>int\<close> of the
  month is in [1,12].
\<close>

fun int_in_1_12 :: "pyval option \<Rightarrow> bool" where
  "int_in_1_12 (Some v) = (case py_int v of Inl e \<Rightarrow> False | Inr m \<Rightarrow> 1 \<le> m \<and> m \<le> 12)"
| "int_in_1_12 None = False"

definition acceptable :: "pyval \<Rightarrow> bool" where
  "acceptable f =
     (str_in (field f ''OPERA'') valid_ops
      \<and> str_in (field f ''TIPOVUELO'') [''I'', ''N'']
      \<and> int_in_1_12 (field f ''MES''))"

text \<open>
  The records on which no test of the validator raises an exception of its own: the
  record is an object, its operator and flight type (if present) are hashable, and
  \<^verbatim>\<open>int\<close> converts its month (if present).
\<close>

fun is_dict :: "pyval \<Rightarrow> bool" where
  "is_dict (PDict kvs) = True"
| "is_dict _ = False"

fun hashable :: "pyval option \<Rightarrow> bool" where
  "hashable (Some (PList vs)) = False"
| "hashable (Some (PDict kvs)) = False"
| "hashable _ = True"

fun convertible :: "pyval option \<Rightarrow> bool" where
  "convertible (Some v) = (case py_int v of Inl e \<Rightarrow> False | Inr m \<Rightarrow> True)"
| "convertible None = True"

definition well_typed :: "pyval \<Rightarrow> bool" where
  "well_typed f =
     (is_dict f \<and> hashable (field f ''OPERA'') \<and> hashable (field f ''TIPOVUELO'')
      \<and> convertible (field f ''MES''))"

text \<open>The row that the validator appends for an acceptable record.\<close>

fun opt_str :: "pyval option \<Rightarrow> string" where
  "opt_str (Some v) = str_value v"
| "opt_str None = []"

fun opt_int :: "pyval option \<Rightarrow> int" where
  "opt_int (Some v) = (case py_int v of Inl e \<Rightarrow> 0 | Inr m \<Rightarrow> m)"
| "opt_int None = 0"

definition row_of :: "pyval \<Rightarrow> flight" where
  "row_of f =
     \<lparr> OPERA = opt_str (field f ''OPERA''),
       TIPOVUELO = opt_str (field f ''TIPOVUELO''),
       MES = opt_int (field f ''MES'') \<rparr>"

section \<open>Properties of the delay label\<close>

lemma min_diff_try_parsed:
  assumes "r ''Fecha-O'' = Some (PStr so)" and "r ''Fecha-I'' = Some (PStr si)"
    and "parse so = Some a" and "parse si = Some b"
  shows "min_diff_try parse r = Inr (of_int (a - b) / 60)"
  using assms by (simp add: min_diff_try_def getitem_def strptime_def)

lemma exception_is_caught:
  assumes "min_diff_try parse r = Inl e"
  shows "calculate_min_diff parse r = 0 \<and> delay_of_row parse r = 0"
  using assms by (simp add: calculate_min_diff_def delay_of_row_def threshold_in_minutes_def)

lemma minutes_over_threshold: "(15 < rat_of_int d / 60) = (15 * 60 < d)"
proof -
  have "(15 < rat_of_int d / 60) = (rat_of_int (15 * 60) < rat_of_int d)"
    by (simp add: field_simps)
  also have "\<dots> = (15 * 60 < d)"
    by (simp only: of_int_less_iff)
  finally show ?thesis .
qed

text \<open>
  C2. Fecha-O is the actual and Fecha-I the scheduled departure. When both timestamps
  parse, to \<open>actual\<close> and \<open>scheduled\<close>, the label is 1 exactly when actual minus
  scheduled is strictly more than 15 minutes (900 seconds), and 0 otherwise. The
  cases of 15 minutes, of 16 minutes and of 5 minutes early are evaluated after it.
\<close>

theorem delay_label_strict_threshold:
  assumes "r ''Fecha-O'' = Some (PStr so)" and "r ''Fecha-I'' = Some (PStr si)"
    and "parse so = Some actual" and "parse si = Some scheduled"
  shows "delay_of_row parse r = (if 15 * 60 < actual - scheduled then 1 else 0)"
proof -
  have "calculate_min_diff parse r = of_int (actual - scheduled) / 60"
    using min_diff_try_parsed [OF assms] by (simp add: calculate_min_diff_def)
  then show ?thesis
    by (simp add: delay_of_row_def threshold_in_minutes_def minutes_over_threshold)
qed

theorem delay_label_strict_threshold_witness:
  "delay_of_row morning_clock
     [''Fecha-I'' \<mapsto> PStr ''2017-01-01 10:00:00'', ''Fecha-O'' \<mapsto> PStr ''2017-01-01 10:15:00''] = 0
   \<and> delay_of_row morning_clock
     [''Fecha-I'' \<mapsto> PStr ''2017-01-01 10:00:00'', ''Fecha-O'' \<mapsto> PStr ''2017-01-01 10:16:00''] = 1
   \<and> delay_of_row morning_clock
     [''Fecha-I'' \<mapsto> PStr ''2017-01-01 10:00:00'', ''Fecha-O'' \<mapsto> PStr ''2017-01-01 09:55:00''] = 0"
proof -
  let ?i = "''2017-01-01 10:00:00''"
  have i: "morning_clock ?i = Some 0"
    by (simp add: morning_clock_def)
  have a: "morning_clock ''2017-01-01 10:15:00'' = Some 900"
    by (simp add: morning_clock_def)
  have b: "morning_clock ''2017-01-01 10:16:00'' = Some 960"
    by (simp add: morning_clock_def)
  have c: "morning_clock ''2017-01-01 09:55:00'' = Some (- 300)"
    by (simp add: morning_clock_def)
  have "delay_of_row morning_clock
     [''Fecha-I'' \<mapsto> PStr ?i, ''Fecha-O'' \<mapsto> PStr ''2017-01-01 10:15:00''] = 0"
    using delay_label_strict_threshold [where parse = morning_clock
        and r = "[''Fecha-I'' \<mapsto> PStr ?i, ''Fecha-O'' \<mapsto> PStr ''2017-01-01 10:15:00'']"
        and so = "''2017-01-01 10:15:00''" and si = ?i and actual = "900" and scheduled = 0]
      a i
    by simp
  moreover have "delay_of_row morning_clock
     [''Fecha-I'' \<mapsto> PStr ?i, ''Fecha-O'' \<mapsto> PStr ''2017-01-01 10:16:00''] = 1"
    using delay_label_strict_threshold [where parse = morning_clock
        and r = "[''Fecha-I'' \<mapsto> PStr ?i, ''Fecha-O'' \<mapsto> PStr ''2017-01-01 10:16:00'']"
        and so = "''2017-01-01 10:16:00''" and si = ?i and actual = "960" and scheduled = 0]
      b i
    by simp
  moreover have "delay_of_row morning_clock
     [''Fecha-I'' \<mapsto> PStr ?i, ''Fecha-O'' \<mapsto> PStr ''2017-01-01 09:55:00''] = 0"
    using delay_label_strict_threshold [where parse = morning_clock
        and r = "[''Fecha-I'' \<mapsto> PStr ?i, ''Fecha-O'' \<mapsto> PStr ''2017-01-01 09:55:00'']"
        and so = "''2017-01-01 09:55:00''" and si = ?i and actual = "- 300" and scheduled = 0]
      c i
    by simp
  ultimately show ?thesis by blast
qed

text \<open>
  C6. When the Fecha-O or the Fecha-I cell holds a string that does not parse, the
  block raises (a \<^verbatim>\<open>ValueError\<close> when both cells are strings), the handler catches
  the exception, the minute difference is 0 and the label is 0.
\<close>

theorem unparseable_timestamp_gives_label_0:
  assumes "unparseable parse (r ''Fecha-O'') \<or> unparseable parse (r ''Fecha-I'')"
  shows "(\<exists>e. min_diff_try parse r = Inl e)
         \<and> (absent_or_not_str (r ''Fecha-O'') \<or> absent_or_not_str (r ''Fecha-I'')
              \<or> min_diff_try parse r = Inl ValueError)
         \<and> calculate_min_diff parse r = 0 \<and> delay_of_row parse r = 0"
proof -
  have "\<exists>e. min_diff_try parse r = Inl e"
    using assms
    by (auto simp add: unparseable_def min_diff_try_def getitem_def strptime_def
        split: option.splits pyval.splits sum.splits)
  moreover have "absent_or_not_str (r ''Fecha-O'') \<or> absent_or_not_str (r ''Fecha-I'')
              \<or> min_diff_try parse r = Inl ValueError"
    using assms
    by (auto simp add: unparseable_def absent_or_not_str_def min_diff_try_def getitem_def
        strptime_def split: option.splits pyval.splits)
  ultimately show ?thesis
    using exception_is_caught by blast
qed

theorem unparseable_timestamp_gives_label_0_witness:
  "calculate_min_diff morning_clock
     [''Fecha-I'' \<mapsto> PStr ''2017-01-01 10:00:00'', ''Fecha-O'' \<mapsto> PStr ''01/01/2017 10:40''] = 0
   \<and> delay_of_row morning_clock
     [''Fecha-I'' \<mapsto> PStr ''2017-01-01 10:00:00'', ''Fecha-O'' \<mapsto> PStr ''01/01/2017 10:40''] = 0
   \<and> min_diff_try morning_clock
     [''Fecha-I'' \<mapsto> PStr ''2017-01-01 10:00:00'', ''Fecha-O'' \<mapsto> PStr ''01/01/2017 10:40'']
     = Inl ValueError"
proof -
  have bad: "unparseable morning_clock (Some (PStr ''01/01/2017 10:40''))"
    by (simp add: unparseable_def morning_clock_def)
  show ?thesis
    using unparseable_timestamp_gives_label_0 [where parse = morning_clock
        and r = "[''Fecha-I'' \<mapsto> PStr ''2017-01-01 10:00:00'', ''Fecha-O'' \<mapsto> PStr ''01/01/2017 10:40'']"]
      bad
    by (simp add: absent_or_not_str_def)
qed

text \<open>
  C9. When the Fecha-O or the Fecha-I cell is absent or holds a value that is not a
  string, the block raises (whatever the other cell holds and whatever the parser
  does), the handler catches it, the minute difference is 0 and the label is 0.
\<close>

theorem absent_or_non_string_gives_label_0:
  assumes "absent_or_not_str (r ''Fecha-O'') \<or> absent_or_not_str (r ''Fecha-I'')"
  shows "(\<exists>e. min_diff_try parse r = Inl e)
         \<and> calculate_min_diff parse r = 0 \<and> delay_of_row parse r = 0"
proof -
  have "\<exists>e. min_diff_try parse r = Inl e"
    using assms
    by (auto simp add: absent_or_not_str_def min_diff_try_def getitem_def strptime_def
        split: option.splits pyval.splits sum.splits)
  then show ?thesis
    using exception_is_caught by blast
qed

theorem absent_or_non_string_gives_label_0_witness:
  "delay_of_row morning_clock [''Fecha-I'' \<mapsto> PStr ''2017-01-01 10:00:00''] = 0
   \<and> delay_of_row morning_clock
       [''Fecha-I'' \<mapsto> PNaN, ''Fecha-O'' \<mapsto> PStr ''2017-01-01 10:16:00''] = 0
   \<and> calculate_min_diff morning_clock
       [''Fecha-I'' \<mapsto> PStr ''2017-01-01 10:00:00'', ''Fecha-O'' \<mapsto> PInt 20170101] = 0"
proof -
  have "delay_of_row morning_clock [''Fecha-I'' \<mapsto> PStr ''2017-01-01 10:00:00''] = 0"
    using absent_or_non_string_gives_label_0
      [of "[''Fecha-I'' \<mapsto> PStr ''2017-01-01 10:00:00'']" morning_clock]
    by (simp add: absent_or_not_str_def)
  moreover have "delay_of_row morning_clock
       [''Fecha-I'' \<mapsto> PNaN, ''Fecha-O'' \<mapsto> PStr ''2017-01-01 10:16:00''] = 0"
    using absent_or_non_string_gives_label_0
      [of "[''Fecha-I'' \<mapsto> PNaN, ''Fecha-O'' \<mapsto> PStr ''2017-01-01 10:16:00'']" morning_clock]
    by (simp add: absent_or_not_str_def)
  moreover have "calculate_min_diff morning_clock
       [''Fecha-I'' \<mapsto> PStr ''2017-01-01 10:00:00'', ''Fecha-O'' \<mapsto> PInt 20170101] = 0"
    using absent_or_non_string_gives_label_0
      [of "[''Fecha-I'' \<mapsto> PStr ''2017-01-01 10:00:00'', ''Fecha-O'' \<mapsto> PInt 20170101]" morning_clock]
    by (simp add: absent_or_not_str_def)
  ultimately show ?thesis by blast
qed

section \<open>Properties of the feature encoder\<close>

subsection \<open>Column labels\<close>

lemma str_int_literals:
  "str_int 7 = ''7''" "str_int 10 = ''10''" "str_int 12 = ''12''"
  "str_int 4 = ''4''" "str_int 11 = ''11''"
  by (simp_all add: str_int_def str_nat.simps digit_char_def)

lemma entry_labels: "map entry_label CATALOG = TOP_10_FEATURES"
  by (simp add: CATALOG_def TOP_10_FEATURES_def str_int_literals)

lemma digit_cases:
  "d < 10 \<Longrightarrow> d = 0 \<or> d = 1 \<or> d = 2 \<or> d = 3 \<or> d = 4 \<or> d = 5 \<or> d = 6 \<or> d = 7 \<or> d = 8 \<or> d = (9::nat)"
  by arith

lemma of_char_digit: "d < 10 \<Longrightarrow> of_char (digit_char d) = (48 + d :: nat)"
  using digit_cases [of d] by (auto simp add: digit_char_def)

text \<open>Reading the digits back gives the number, so that distinct numbers have distinct
  labels.\<close>

lemma digits_value_str_nat: "digits_value (str_nat n) = n"
proof (induction n rule: str_nat.induct)
  case (1 n)
  show ?case
  proof (cases "n < 10")
    case True
    then show ?thesis
      by (simp add: str_nat.simps [of n] digits_value_def of_char_digit)
  next
    case False
    then have "digits_value (str_nat (n div 10)) = n div 10"
      using "1.IH" by simp
    then show ?thesis
      using False by (simp add: str_nat.simps [of n] digits_value_def of_char_digit)
  qed
qed

lemma str_nat_inj: "str_nat m = str_nat n \<Longrightarrow> m = n"
  by (metis digits_value_str_nat)

lemma str_nat_no_minus: "CHR ''-'' \<notin> set (str_nat n)"
proof (induction n rule: str_nat.induct)
  case (1 n)
  have d: "digit_char d \<noteq> CHR ''-''" if "d < 10" for d
  proof -
    have "of_char (digit_char d) = (48 + d :: nat)"
      using that by (rule of_char_digit)
    moreover have "of_char CHR ''-'' = (45 :: nat)"
      by simp
    ultimately show ?thesis by auto
  qed
  show ?case
  proof (cases "n < 10")
    case True
    then show ?thesis
      using d [of n] by (auto simp add: str_nat.simps [of n])
  next
    case False
    then show ?thesis
      using "1.IH" d [of "n mod 10"] by (auto simp add: str_nat.simps [of n])
  qed
qed

lemma str_nat_nonempty: "str_nat n \<noteq> []"
  by (simp add: str_nat.simps [of n])

lemma hd_str_nat: "hd (str_nat n) \<noteq> CHR ''-''"
  using str_nat_no_minus str_nat_nonempty by (metis hd_in_set)

lemma str_int_inj:
  assumes eq: "str_int i = str_int j"
  shows "i = j"
proof (cases "i < 0")
  case True
  show ?thesis
  proof (cases "j < 0")
    case True
    with \<open>i < 0\<close> eq have "str_nat (nat (- i)) = str_nat (nat (- j))"
      by (simp add: str_int_def)
    then have "nat (- i) = nat (- j)"
      by (rule str_nat_inj)
    with True \<open>i < 0\<close> show ?thesis by simp
  next
    case False
    with \<open>i < 0\<close> eq have "CHR ''-'' # str_nat (nat (- i)) = str_nat (nat j)"
      by (simp add: str_int_def)
    then have "hd (str_nat (nat j)) = CHR ''-''"
      by (metis list.sel(1))
    with hd_str_nat show ?thesis by blast
  qed
next
  case False
  show ?thesis
  proof (cases "j < 0")
    case True
    with \<open>\<not> i < 0\<close> eq have "str_nat (nat i) = CHR ''-'' # str_nat (nat (- j))"
      by (simp add: str_int_def)
    then have "hd (str_nat (nat i)) = CHR ''-''"
      by (metis list.sel(1))
    with hd_str_nat show ?thesis by blast
  next
    case False
    with \<open>\<not> i < 0\<close> eq have "str_nat (nat i) = str_nat (nat j)"
      by (simp add: str_int_def)
    then have "nat i = nat j"
      by (rule str_nat_inj)
    with False \<open>\<not> i < 0\<close> show ?thesis by simp
  qed
qed

lemma inj_str_int: "inj str_int"
  by (auto simp add: inj_def dest: str_int_inj)

subsection \<open>The dummy columns\<close>

lemma map_of_keyed:
  assumes "inj f"
  shows "map_of (map (\<lambda>l. (f l, g l)) ls) (f v) = (if v \<in> set ls then Some (g v) else None)"
  by (induction ls) (auto simp add: inj_eq [OF assms])

lemma map_of_keyed_None:
  assumes "\<And>l. f l \<noteq> k"
  shows "map_of (map (\<lambda>l. (f l, g l)) ls) k = None"
  using assms by (induction ls) auto

lemma dummy_column:
  assumes "inj str"
  shows "map_of (columns (get_dummies str col p)) (p @ ''_'' @ str v) =
         (if v \<in> set col then Some (map (\<lambda>x. if x = v then 1 else 0) col) else None)"
proof -
  have "inj (\<lambda>l. p @ ''_'' @ str l)"
    using assms by (auto simp add: inj_def)
  from map_of_keyed [OF this, of "\<lambda>l. map (\<lambda>x. if x = l then 1 else 0) col" "sort (remdups col)" v]
  show ?thesis by (simp add: get_dummies_def)
qed

lemma dummy_column_None:
  assumes "\<And>l. p @ ''_'' @ str l \<noteq> k"
  shows "map_of (columns (get_dummies str col p)) k = None"
  using map_of_keyed_None [of "\<lambda>l. p @ ''_'' @ str l" k, OF assms]
  by (simp add: get_dummies_def)

lemma zero_column:
  assumes "\<And>r. r \<in> set data \<Longrightarrow> f r = (0::int)"
  shows "map f data = replicate (length data) 0"
  using assms by (induction data) auto

text \<open>The column that the frame of dummies holds under the label of a catalog entry,
  or the column of zeros if it holds none, is the column of the entry's indicator.\<close>

lemma dummies_column:
  "(case map_of (columns (dummies data)) (entry_label e) of
      Some c \<Rightarrow> c | None \<Rightarrow> replicate (length data) 0) = map (indicator e) data"
proof (cases e)
  case (Operator l)
  have "map_of (columns (get_dummies (\<lambda>s. s) (map OPERA data) ''OPERA'')) (''OPERA'' @ ''_'' @ l) =
        (if l \<in> set (map OPERA data)
         then Some (map (\<lambda>x. if x = l then 1 else 0) (map OPERA data)) else None)"
    by (rule dummy_column) (simp add: inj_def)
  then have "map_of (columns (dummies data)) (entry_label e) =
        (if l \<in> set (map OPERA data) then Some (map (indicator e) data) else None)"
    using Operator
    by (simp add: dummies_def concat_axis1_def dummy_column_None map_add_def o_def)
  moreover have "l \<notin> set (map OPERA data) \<Longrightarrow> map (indicator e) data = replicate (length data) 0"
    using Operator by (intro zero_column) auto
  ultimately show ?thesis by simp
next
  case (FlightType l)
  have "map_of (columns (get_dummies (\<lambda>s. s) (map TIPOVUELO data) ''TIPOVUELO''))
          (''TIPOVUELO'' @ ''_'' @ l) =
        (if l \<in> set (map TIPOVUELO data)
         then Some (map (\<lambda>x. if x = l then 1 else 0) (map TIPOVUELO data)) else None)"
    by (rule dummy_column) (simp add: inj_def)
  then have "map_of (columns (dummies data)) (entry_label e) =
        (if l \<in> set (map TIPOVUELO data) then Some (map (indicator e) data) else None)"
    using FlightType
    by (simp add: dummies_def concat_axis1_def dummy_column_None map_add_def o_def)
  moreover have "l \<notin> set (map TIPOVUELO data) \<Longrightarrow> map (indicator e) data = replicate (length data) 0"
    using FlightType by (intro zero_column) auto
  ultimately show ?thesis by simp
next
  case (Month m)
  have "map_of (columns (get_dummies str_int (map MES data) ''MES'')) (''MES'' @ ''_'' @ str_int m) =
        (if m \<in> set (map MES data)
         then Some (map (\<lambda>x. if x = m then 1 else 0) (map MES data)) else None)"
    by (rule dummy_column) (rule inj_str_int)
  then have "map_of (columns (dummies data)) (entry_label e) =
        (if m \<in> set (map MES data) then Some (map (indicator e) data) else None)"
    using Month
    by (simp add: dummies_def concat_axis1_def dummy_column_None map_add_def o_def)
  moreover have "m \<notin> set (map MES data) \<Longrightarrow> map (indicator e) data = replicate (length data) 0"
    using Month by (intro zero_column) auto
  ultimately show ?thesis by simp
qed

lemma dummies_nrows: "nrows (dummies data) = length data"
  by (simp add: dummies_def concat_axis1_def get_dummies_def)

text \<open>No two columns of the frame of dummies carry the same label, so that a label
  selects one column.\<close>

lemma dummy_labels:
  "map fst (columns (get_dummies str col p)) = map (\<lambda>l. p @ ''_'' @ str l) (sort (remdups col))"
  by (simp add: get_dummies_def o_def)

lemma dummy_labels_distinct:
  assumes "inj str"
  shows "distinct (map fst (columns (get_dummies str col p)))"
proof -
  have "inj_on (\<lambda>l. p @ ''_'' @ str l) (set (sort (remdups col)))"
    using assms by (auto simp add: inj_on_def inj_def)
  then show ?thesis
    by (simp add: dummy_labels distinct_map)
qed

lemma dummies_labels_distinct: "distinct (map fst (columns (dummies data)))"
proof -
  have "distinct (map fst (columns (get_dummies (\<lambda>s. s) (map OPERA data) ''OPERA'')))"
    and "distinct (map fst (columns (get_dummies (\<lambda>s. s) (map TIPOVUELO data) ''TIPOVUELO'')))"
    by (rule dummy_labels_distinct, simp add: inj_def)+
  moreover have "distinct (map fst (columns (get_dummies str_int (map MES data) ''MES'')))"
    by (rule dummy_labels_distinct) (rule inj_str_int)
  ultimately show ?thesis
    by (auto simp add: dummies_def concat_axis1_def dummy_labels)
qed

subsection \<open>Filling in and selecting the ten columns\<close>

lemma add_if_missing_lookup:
  "map_of (columns (add_if_missing fr l)) k =
     (case map_of (columns fr) k of
        Some c \<Rightarrow> Some c
      | None \<Rightarrow> if k = l then Some (replicate (nrows fr) 0) else None)"
proof (cases "l \<in> set (map fst (columns fr))")
  case True
  then have "map_of (columns fr) l \<noteq> None"
    by (simp add: map_of_eq_None_iff)
  with True show ?thesis
    by (auto simp add: add_if_missing_def split: option.splits)
next
  case False
  then have "map_of (columns fr) l = None"
    by (simp add: map_of_eq_None_iff)
  with False show ?thesis
    by (auto simp add: add_if_missing_def map_add_def split: option.splits)
qed

lemma add_if_missing_nrows: "nrows (add_if_missing fr l) = nrows fr"
  by (simp add: add_if_missing_def)

lemma fill_nrows: "nrows (foldl add_if_missing fr ls) = nrows fr"
  by (induction ls arbitrary: fr) (simp_all add: add_if_missing_nrows)

lemma fill_lookup:
  "map_of (columns (foldl add_if_missing fr ls)) k =
     (case map_of (columns fr) k of
        Some c \<Rightarrow> Some c
      | None \<Rightarrow> if k \<in> set ls then Some (replicate (nrows fr) 0) else None)"
proof (induction ls arbitrary: fr)
  case Nil
  show ?case by (simp split: option.splits)
next
  case (Cons l ls)
  show ?case
    by (simp add: Cons.IH add_if_missing_lookup add_if_missing_nrows split: option.splits)
qed

lemma select_columns_all:
  assumes "\<And>e. e \<in> set es \<Longrightarrow> map_of cs (lab e) = Some (g e)"
  shows "select_columns cs (map lab es) = Inr (map (\<lambda>e. (lab e, g e)) es)"
  using assms by (induction es) simp_all

text \<open>The frame that \<open>preprocess\<close> returns, column by column.\<close>

lemma preprocess_frame:
  "preprocess data =
     Inr \<lparr> nrows = length data,
           columns = map (\<lambda>e. (entry_label e, map (indicator e) data)) CATALOG \<rparr>"
proof -
  let ?filled = "foldl add_if_missing (dummies data) (map entry_label CATALOG)"
  have "map_of (columns ?filled) (entry_label e) = Some (map (indicator e) data)"
    if "e \<in> set CATALOG" for e
  proof -
    have "entry_label e \<in> set (map entry_label CATALOG)"
      using that by simp
    then have "map_of (columns ?filled) (entry_label e) =
        Some (case map_of (columns (dummies data)) (entry_label e) of
                Some c \<Rightarrow> c | None \<Rightarrow> replicate (length data) 0)"
      by (simp add: fill_lookup dummies_nrows split: option.splits)
    then show ?thesis
      by (simp only: dummies_column)
  qed
  then have sel: "select_columns (columns ?filled) (map entry_label CATALOG) =
        Inr (map (\<lambda>e. (entry_label e, map (indicator e) data)) CATALOG)"
    by (rule select_columns_all)
  have "preprocess data = getitem_labels ?filled (map entry_label CATALOG)"
    by (simp only: preprocess_def Let_def entry_labels)
  then show ?thesis
    by (simp add: getitem_labels_def sel fill_nrows dummies_nrows)
qed

lemma feature_rows_encode:
  "feature_rows \<lparr> nrows = length data,
           columns = map (\<lambda>e. (entry_label e, map (indicator e) data)) CATALOG \<rparr>
   = map spec_encode data"
proof -
  have "row_at \<lparr> nrows = length data,
           columns = map (\<lambda>e. (entry_label e, map (indicator e) data)) CATALOG \<rparr> i
        = spec_encode (data ! i)" if "i < length data" for i
    using that by (simp add: row_at_def spec_encode_def o_def)
  then have "feature_rows \<lparr> nrows = length data,
           columns = map (\<lambda>e. (entry_label e, map (indicator e) data)) CATALOG \<rparr>
        = map (\<lambda>i. spec_encode (data ! i)) [0..<length data]"
    by (simp add: feature_rows_def)
  also have "\<dots> = map spec_encode (map (\<lambda>i. data ! i) [0..<length data])"
    by (simp add: o_def)
  also have "\<dots> = map spec_encode data"
    by (simp only: map_nth)
  finally show ?thesis .
qed

lemma feature_vectors_encode: "feature_vectors data = Inr (map spec_encode data)"
  by (simp add: feature_vectors_def preprocess_frame feature_rows_encode)

text \<open>
  C1. For every batch, \<open>preprocess\<close> succeeds and returns a frame with one row per
  record and the ten catalog columns in the catalog's order, and the feature vector
  of each record is the indicator vector \<open>spec_encode\<close> of that record alone: ten
  equality tests of its OPERA, TIPOVUELO and MES against the catalog. Hence the
  vector of a record \<open>r\<close> inside any batch \<open>pre @ r # post\<close> is the vector that \<open>r\<close>
  gets when it is encoded alone.
\<close>

theorem preprocess_is_catalog_indicator:
  "feature_vectors data = Inr (map spec_encode data)
   \<and> (\<exists>fr. preprocess data = Inr fr \<and> map fst (columns fr) = TOP_10_FEATURES
          \<and> nrows fr = length data)
   \<and> length (spec_encode r) = 10
   \<and> (\<exists>vs v. feature_vectors (pre @ r # post) = Inr vs \<and> feature_vectors [r] = Inr [v]
          \<and> length vs = length (pre @ r # post) \<and> vs ! length pre = v)"
proof -
  have "\<exists>fr. preprocess data = Inr fr \<and> map fst (columns fr) = TOP_10_FEATURES
          \<and> nrows fr = length data"
    by (simp add: preprocess_frame o_def entry_labels)
  moreover have "length (spec_encode r) = 10"
    by (simp add: spec_encode_def CATALOG_def)
  moreover have "\<exists>vs v. feature_vectors (pre @ r # post) = Inr vs \<and> feature_vectors [r] = Inr [v]
        \<and> length vs = length (pre @ r # post) \<and> vs ! length pre = v"
    by (simp add: feature_vectors_encode nth_append)
  ultimately show ?thesis
    using feature_vectors_encode by blast
qed

text \<open>The record with an operator outside the catalog, flight type I and month 7, alone
  and after another record.\<close>

theorem preprocess_is_catalog_indicator_witness:
  "feature_vectors [\<lparr> OPERA = ''Avianca'', TIPOVUELO = ''I'', MES = 7 \<rparr>]
     = Inr [[0, 1, 0, 0, 0, 1, 0, 0, 0, 0]]
   \<and> feature_vectors [\<lparr> OPERA = ''Grupo LATAM'', TIPOVUELO = ''N'', MES = 12 \<rparr>,
                      \<lparr> OPERA = ''Avianca'', TIPOVUELO = ''I'', MES = 7 \<rparr>]
     = Inr [[0, 0, 0, 1, 1, 0, 0, 0, 0, 0], [0, 1, 0, 0, 0, 1, 0, 0, 0, 0]]"
proof -
  have "feature_vectors [\<lparr> OPERA = ''Avianca'', TIPOVUELO = ''I'', MES = 7 \<rparr>]
     = Inr [[0, 1, 0, 0, 0, 1, 0, 0, 0, 0]]"
    using preprocess_is_catalog_indicator
      [where data = "[\<lparr> OPERA = ''Avianca'', TIPOVUELO = ''I'', MES = 7 \<rparr>]",
        THEN conjunct1]
    by (simp add: spec_encode_def CATALOG_def)
  moreover have "feature_vectors [\<lparr> OPERA = ''Grupo LATAM'', TIPOVUELO = ''N'', MES = 12 \<rparr>,
                      \<lparr> OPERA = ''Avianca'', TIPOVUELO = ''I'', MES = 7 \<rparr>]
     = Inr [[0, 0, 0, 1, 1, 0, 0, 0, 0, 0], [0, 1, 0, 0, 0, 1, 0, 0, 0, 0]]"
    using preprocess_is_catalog_indicator
      [where data = "[\<lparr> OPERA = ''Grupo LATAM'', TIPOVUELO = ''N'', MES = 12 \<rparr>,
            \<lparr> OPERA = ''Avianca'', TIPOVUELO = ''I'', MES = 7 \<rparr>]",
        THEN conjunct1]
    by (simp add: spec_encode_def CATALOG_def)
  ultimately show ?thesis by blast
qed

section \<open>Properties of the serving validator\<close>

lemma in_str_set_hashable:
  "hashable (Some v) \<Longrightarrow> in_str_set v S = Inr (str_in (Some v) S)"
  by (cases v) simp_all

text \<open>A value that passes a membership test is a string, the one that the row keeps.\<close>

lemma in_str_set_True: "in_str_set v S = Inr True \<Longrightarrow> v = PStr (str_value v)"
  by (cases v) simp_all

lemma py_int_error: "py_int v = Inl e \<Longrightarrow> e = ValueError \<or> e = TypeError \<or> e = OverflowError"
  by (cases v) (auto simp add: int_of_str_def Let_def split: if_splits)

lemma int_of_str_examples:
  "int_of_str ''7'' = Inr 7" "int_of_str ''abc'' = Inl ValueError"
  by (simp_all add: int_of_str_def is_space_def is_digit_def digits_value_def)

lemma py_int_float_example: "py_int (PFloat (79 / 10)) = Inr 7"
proof -
  have "\<lfloor>79 / 10 :: rat\<rfloor> = 7"
    by linarith
  then show ?thesis by simp
qed

subsection \<open>One record\<close>

lemma validate_flight_dict:
  assumes "map_of kvs ''OPERA'' = Some opera" and "map_of kvs ''TIPOVUELO'' = Some tipo"
    and "map_of kvs ''MES'' = Some mes"
  shows "validate_flight (PDict kvs) =
     (case in_str_set opera valid_ops of
        Inl e \<Rightarrow> Inl e
      | Inr opera_ok \<Rightarrow>
     if \<not> opera_ok then Inl (HTTPException 400) else
     (case in_str_set tipo [''I'', ''N''] of
        Inl e \<Rightarrow> Inl e
      | Inr tipo_ok \<Rightarrow>
     if \<not> tipo_ok then Inl (HTTPException 400) else
     (case py_int mes of
        Inl e \<Rightarrow> Inl e
      | Inr m \<Rightarrow>
     if \<not> (1 \<le> m \<and> m \<le> 12) then Inl (HTTPException 400)
     else Inr \<lparr> OPERA = str_value opera, TIPOVUELO = str_value tipo, MES = m \<rparr>)))"
  using assms by (simp add: validate_flight_def)

lemma validate_flight_missing:
  assumes "map_of kvs ''OPERA'' = None \<or> map_of kvs ''TIPOVUELO'' = None
           \<or> map_of kvs ''MES'' = None"
  shows "validate_flight (PDict kvs) = Inl (HTTPException 400)"
  using assms by (auto simp add: validate_flight_def)

lemma validate_flight_well_typed:
  assumes "well_typed f"
  shows "validate_flight f = (if acceptable f then Inr (row_of f) else Inl (HTTPException 400))"
proof -
  from assms obtain kvs where f: "f = PDict kvs"
    by (cases f) (simp_all add: well_typed_def)
  show ?thesis
  proof (cases "map_of kvs ''OPERA'' = None \<or> map_of kvs ''TIPOVUELO'' = None
                \<or> map_of kvs ''MES'' = None")
    case True
    then have "\<not> acceptable f"
      by (auto simp add: acceptable_def f)
    with True show ?thesis
      by (simp add: f validate_flight_missing)
  next
    case False
    then obtain opera tipo mes where
      k: "map_of kvs ''OPERA'' = Some opera" "map_of kvs ''TIPOVUELO'' = Some tipo"
         "map_of kvs ''MES'' = Some mes"
      by auto
    from assms obtain m where m: "py_int mes = Inr m"
      by (auto simp add: well_typed_def f k split: sum.splits)
    from assms have h: "hashable (Some opera)" "hashable (Some tipo)"
      by (simp_all add: well_typed_def f k)
    show ?thesis
      by (simp add: f validate_flight_dict [OF k] in_str_set_hashable [OF h(1)]
          in_str_set_hashable [OF h(2)] m acceptable_def row_of_def k)
  qed
qed

lemma validate_flight_json:
  "validate_flight (flight_json opera tipo mes) =
     (if opera \<notin> set valid_ops then Inl (HTTPException 400)
      else if tipo \<notin> set [''I'', ''N''] then Inl (HTTPException 400)
      else (case py_int mes of
              Inl e \<Rightarrow> Inl e
            | Inr m \<Rightarrow>
                if \<not> (1 \<le> m \<and> m \<le> 12) then Inl (HTTPException 400)
                else Inr \<lparr> OPERA = opera, TIPOVUELO = tipo, MES = m \<rparr>))"
  by (simp add: flight_json_def validate_flight_def split: sum.splits)

lemma well_typed_flight_json:
  "well_typed (flight_json opera tipo mes) = (case py_int mes of Inl e \<Rightarrow> False | Inr m \<Rightarrow> True)"
  by (simp add: well_typed_def flight_json_def)

lemma acceptable_flight_json:
  "acceptable (flight_json opera tipo mes) =
     (opera \<in> set valid_ops \<and> tipo \<in> set [''I'', ''N'']
      \<and> (case py_int mes of Inl e \<Rightarrow> False | Inr m \<Rightarrow> 1 \<le> m \<and> m \<le> 12))"
  by (simp add: acceptable_def flight_json_def)

lemma row_of_flight_json:
  "row_of (flight_json opera tipo mes) =
     \<lparr> OPERA = opera, TIPOVUELO = tipo, MES = (case py_int mes of Inl e \<Rightarrow> 0 | Inr m \<Rightarrow> m) \<rparr>"
  by (simp add: row_of_def flight_json_def)

subsection \<open>The loop\<close>

lemma validate_loop_all:
  assumes "\<And>f. f \<in> set fs \<Longrightarrow> validate_flight f = Inr (g f)"
  shows "validate_loop fs rows = Inr (rows @ map g fs)"
  using assms by (induction fs arbitrary: rows) simp_all

lemma validate_loop_rejects:
  assumes "\<And>f. f \<in> set fs \<Longrightarrow> validate_flight f = Inr (g f) \<or> validate_flight f = Inl e"
    and "\<exists>f \<in> set fs. validate_flight f = Inl e"
  shows "validate_loop fs rows = Inl e"
  using assms
proof (induction fs arbitrary: rows)
  case Nil
  then show ?case by simp
next
  case (Cons f fs)
  show ?case
  proof (cases "validate_flight f = Inl e")
    case True
    then show ?thesis by simp
  next
    case False
    with Cons.prems have ok: "validate_flight f = Inr (g f)"
      and "\<exists>f \<in> set fs. validate_flight f = Inl e"
      by auto
    then have "validate_loop fs (rows @ [g f]) = Inl e"
      using Cons.prems(1) by (intro Cons.IH) auto
    with ok show ?thesis by simp
  qed
qed

lemma validate_loop_prefix:
  assumes "validate_loop pre [] = Inr rows"
  shows "validate_loop (pre @ fs) [] = validate_loop fs rows"
proof -
  have "validate_loop pre acc = Inr out \<Longrightarrow> validate_loop (pre @ fs) acc = validate_loop fs out"
    for acc out
    by (induction pre arbitrary: acc) (auto split: sum.splits)
  with assms show ?thesis by blast
qed

text \<open>However the batch is made up, the validator returns rows for all of its records
  or none: there is no partial result.\<close>

lemma validate_loop_length:
  "validate_loop fs rows = Inr out \<Longrightarrow> length out = length rows + length fs"
  by (induction fs arbitrary: rows) (auto split: sum.splits)

text \<open>
  C3, as amended. For a batch of records on which no test of the validator raises an
  exception of its own (each record is an object, its operator and flight type are
  hashable, and \<^verbatim>\<open>int\<close> converts its month): if some record lacks one of the three keys,
  or has an operator outside the five carriers, a flight type outside I and N, or a
  month whose \<^verbatim>\<open>int\<close> is outside [1,12], the request fails with the status 400 and no
  row is returned; otherwise every record is accepted and its row carries the \<^verbatim>\<open>int\<close>
  of its month.
\<close>

theorem validate_rejects_whole_batch:
  assumes "payload ''flights'' = Some (PList fs)" and "list_all well_typed fs"
  shows "validate payload =
     (if list_all acceptable fs then Inr (map row_of fs) else Inl (HTTPException 400))"
proof (cases "list_all acceptable fs")
  case True
  have "validate_flight f = Inr (row_of f)" if "f \<in> set fs" for f
    using that assms(2) True by (simp add: list_all_iff validate_flight_well_typed)
  then have "validate_loop fs [] = Inr ([] @ map row_of fs)"
    by (rule validate_loop_all)
  with True assms(1) show ?thesis
    by (simp add: validate_def)
next
  case False
  have "validate_flight f = Inr (row_of f) \<or> validate_flight f = Inl (HTTPException 400)"
    if "f \<in> set fs" for f
    using that assms(2) by (simp add: list_all_iff validate_flight_well_typed)
  moreover have "\<exists>f \<in> set fs. validate_flight f = Inl (HTTPException 400)"
    using False assms(2) by (auto simp add: list_all_iff validate_flight_well_typed)
  ultimately have "validate_loop fs [] = Inl (HTTPException 400)"
    by (rule validate_loop_rejects)
  with False assms(1) show ?thesis
    by (simp add: validate_def)
qed

theorem validate_rejects_whole_batch_witness:
  "validate [''flights'' \<mapsto> PList [flight_json ''Copa Air'' ''N'' (PInt 3),
                                  flight_json ''Sky Airline'' ''I'' (PFloat (79 / 10))]]
     = Inr [\<lparr> OPERA = ''Copa Air'', TIPOVUELO = ''N'', MES = 3 \<rparr>,
            \<lparr> OPERA = ''Sky Airline'', TIPOVUELO = ''I'', MES = 7 \<rparr>]
   \<and> validate [''flights'' \<mapsto> PList [flight_json ''Copa Air'' ''N'' (PInt 3),
                                  flight_json ''Sky Airline'' ''I'' (PInt 13)]]
     = Inl (HTTPException 400)
   \<and> validate [''flights'' \<mapsto> PList [flight_json ''Avianca'' ''N'' (PInt 3),
                                  flight_json ''Sky Airline'' ''I'' (PInt 12)]]
     = Inl (HTTPException 400)
   \<and> validate [''flights'' \<mapsto> PList [flight_json ''Copa Air'' ''X'' (PInt 0)]]
     = Inl (HTTPException 400)"
proof -
  have "validate [''flights'' \<mapsto> PList [flight_json ''Copa Air'' ''N'' (PInt 3),
                                  flight_json ''Sky Airline'' ''I'' (PFloat (79 / 10))]]
     = Inr [\<lparr> OPERA = ''Copa Air'', TIPOVUELO = ''N'', MES = 3 \<rparr>,
            \<lparr> OPERA = ''Sky Airline'', TIPOVUELO = ''I'', MES = 7 \<rparr>]"
    using validate_rejects_whole_batch
      [of "[''flights'' \<mapsto> PList [flight_json ''Copa Air'' ''N'' (PInt 3),
                                  flight_json ''Sky Airline'' ''I'' (PFloat (79 / 10))]]"
          "[flight_json ''Copa Air'' ''N'' (PInt 3),
            flight_json ''Sky Airline'' ''I'' (PFloat (79 / 10))]"]
    by (simp add: well_typed_flight_json acceptable_flight_json row_of_flight_json
        py_int_float_example valid_ops_def del: py_int.simps(3))
  moreover have "validate [''flights'' \<mapsto> PList [flight_json ''Copa Air'' ''N'' (PInt 3),
                                  flight_json ''Sky Airline'' ''I'' (PInt 13)]]
     = Inl (HTTPException 400)"
    using validate_rejects_whole_batch
      [of "[''flights'' \<mapsto> PList [flight_json ''Copa Air'' ''N'' (PInt 3),
                                  flight_json ''Sky Airline'' ''I'' (PInt 13)]]"
          "[flight_json ''Copa Air'' ''N'' (PInt 3),
            flight_json ''Sky Airline'' ''I'' (PInt 13)]"]
    by (simp add: well_typed_flight_json acceptable_flight_json valid_ops_def)
  moreover have "validate [''flights'' \<mapsto> PList [flight_json ''Avianca'' ''N'' (PInt 3),
                                  flight_json ''Sky Airline'' ''I'' (PInt 12)]]
     = Inl (HTTPException 400)"
    using validate_rejects_whole_batch
      [of "[''flights'' \<mapsto> PList [flight_json ''Avianca'' ''N'' (PInt 3),
                                  flight_json ''Sky Airline'' ''I'' (PInt 12)]]"
          "[flight_json ''Avianca'' ''N'' (PInt 3),
            flight_json ''Sky Airline'' ''I'' (PInt 12)]"]
    by (simp add: well_typed_flight_json acceptable_flight_json valid_ops_def)
  moreover have "validate [''flights'' \<mapsto> PList [flight_json ''Copa Air'' ''X'' (PInt 0)]]
     = Inl (HTTPException 400)"
    using validate_rejects_whole_batch
      [of "[''flights'' \<mapsto> PList [flight_json ''Copa Air'' ''X'' (PInt 0)]]"
          "[flight_json ''Copa Air'' ''X'' (PInt 0)]"]
    by (simp add: well_typed_flight_json acceptable_flight_json valid_ops_def)
  ultimately show ?thesis by blast
qed

text \<open>
  The claim as the specification states it fails on the record with the month 7.9: the
  month is not an integer in [1,12], so the record is not valid in the specification's
  sense, and yet the validator accepts the batch, with the month 7.
\<close>

theorem non_integer_month_is_accepted:
  "\<not> spec_valid (flight_json ''Grupo LATAM'' ''I'' (PFloat (79 / 10)))
   \<and> validate [''flights'' \<mapsto> PList [flight_json ''Grupo LATAM'' ''I'' (PFloat (79 / 10))]]
       = Inr [\<lparr> OPERA = ''Grupo LATAM'', TIPOVUELO = ''I'', MES = 7 \<rparr>]"
  by (simp add: spec_valid_def flight_json_def validate_def validate_flight_def valid_ops_def
      py_int_float_example del: py_int.simps)

text \<open>
  C10. Take a record that is reached by the loop (the records before it were accepted,
  with rows \<open>rows\<close>) and whose operator and flight type are valid. If \<^verbatim>\<open>int\<close> converts
  its MES value \<open>mes\<close>, whatever kind of value it is, to an \<open>m\<close> in [1,12], the record
  is accepted: the loop goes on with the row that carries \<open>m\<close>. If \<^verbatim>\<open>int\<close> raises \<open>e\<close>
  on \<open>mes\<close>, the validator raises \<open>e\<close>, which is not the status 400. The string "7",
  the float 7.9 and the string "abc" are evaluated after it.
\<close>

theorem validate_coerces_month_with_int:
  assumes "payload ''flights'' = Some (PList (pre @ PDict kvs # post))"
    and "validate_loop pre [] = Inr rows"
    and "map_of kvs ''OPERA'' = Some (PStr opera)" and "opera \<in> set valid_ops"
    and "map_of kvs ''TIPOVUELO'' = Some (PStr tipo)" and "tipo \<in> set [''I'', ''N'']"
    and "map_of kvs ''MES'' = Some mes"
  shows "(py_int mes = Inr m \<and> 1 \<le> m \<and> m \<le> 12 \<longrightarrow>
            validate payload =
            validate_loop post (rows @ [\<lparr> OPERA = opera, TIPOVUELO = tipo, MES = m \<rparr>]))
       \<and> (py_int mes = Inl e \<longrightarrow> validate payload = Inl e \<and> e \<noteq> HTTPException 400)"
proof -
  have v: "validate payload = validate_loop (PDict kvs # post) rows"
    using assms(1) validate_loop_prefix [OF assms(2)] by (simp add: validate_def)
  have f: "validate_flight (PDict kvs) =
     (case py_int mes of
        Inl e \<Rightarrow> Inl e
      | Inr m \<Rightarrow>
          if \<not> (1 \<le> m \<and> m \<le> 12) then Inl (HTTPException 400)
          else Inr \<lparr> OPERA = opera, TIPOVUELO = tipo, MES = m \<rparr>)"
    using assms(4,6) by (simp add: validate_flight_dict [OF assms(3,5,7)] split: sum.splits)
  have "py_int mes = Inl e \<Longrightarrow> e \<noteq> HTTPException 400"
    using py_int_error by blast
  then show ?thesis
    by (auto simp add: v f)
qed

theorem validate_coerces_month_with_int_witness:
  "validate [''flights'' \<mapsto> PList [flight_json ''Grupo LATAM'' ''I'' (PStr ''7'')]]
     = Inr [\<lparr> OPERA = ''Grupo LATAM'', TIPOVUELO = ''I'', MES = 7 \<rparr>]
   \<and> validate [''flights'' \<mapsto> PList [flight_json ''Sky Airline'' ''N'' (PFloat (79 / 10))]]
     = Inr [\<lparr> OPERA = ''Sky Airline'', TIPOVUELO = ''N'', MES = 7 \<rparr>]
   \<and> validate [''flights'' \<mapsto> PList [flight_json ''Grupo LATAM'' ''I'' (PStr ''abc'')]]
     = Inl ValueError"
proof -
  have o: "''Grupo LATAM'' \<in> set valid_ops" and o': "''Sky Airline'' \<in> set valid_ops"
    by (simp_all add: valid_ops_def)
  have t: "''I'' \<in> set [''I'', ''N'']" and t': "''N'' \<in> set [''I'', ''N'']"
    by simp_all
  have l: "validate_loop [] [] = Inr []"
    by simp
  have "validate [''flights'' \<mapsto> PList [flight_json ''Grupo LATAM'' ''I'' (PStr ''7'')]]
     = Inr [\<lparr> OPERA = ''Grupo LATAM'', TIPOVUELO = ''I'', MES = 7 \<rparr>]"
    using validate_coerces_month_with_int
      [where payload = "[''flights'' \<mapsto> PList [flight_json ''Grupo LATAM'' ''I'' (PStr ''7'')]]"
        and pre = "[]" and post = "[]" and rows = "[]"
        and opera = "''Grupo LATAM''" and tipo = "''I''" and mes = "PStr ''7''" and m = 7
        and kvs = "[(''OPERA'', PStr ''Grupo LATAM''), (''TIPOVUELO'', PStr ''I''),
                    (''MES'', PStr ''7'')]",
        OF _ l _ o _ t]
    by (simp add: flight_json_def int_of_str_examples)
  moreover have "validate [''flights'' \<mapsto> PList [flight_json ''Sky Airline'' ''N'' (PFloat (79 / 10))]]
     = Inr [\<lparr> OPERA = ''Sky Airline'', TIPOVUELO = ''N'', MES = 7 \<rparr>]"
    using validate_coerces_month_with_int
      [where payload = "[''flights'' \<mapsto> PList [flight_json ''Sky Airline'' ''N'' (PFloat (79 / 10))]]"
        and pre = "[]" and post = "[]" and rows = "[]"
        and opera = "''Sky Airline''" and tipo = "''N''" and mes = "PFloat (79 / 10)" and m = 7
        and kvs = "[(''OPERA'', PStr ''Sky Airline''), (''TIPOVUELO'', PStr ''N''),
                    (''MES'', PFloat (79 / 10))]",
        OF _ l _ o' _ t']
    by (simp add: flight_json_def py_int_float_example del: py_int.simps(3))
  moreover have "validate [''flights'' \<mapsto> PList [flight_json ''Grupo LATAM'' ''I'' (PStr ''abc'')]]
     = Inl ValueError"
    using validate_coerces_month_with_int
      [where payload = "[''flights'' \<mapsto> PList [flight_json ''Grupo LATAM'' ''I'' (PStr ''abc'')]]"
        and pre = "[]" and post = "[]" and rows = "[]"
        and opera = "''Grupo LATAM''" and tipo = "''I''" and mes = "PStr ''abc''" and e = ValueError
        and kvs = "[(''OPERA'', PStr ''Grupo LATAM''), (''TIPOVUELO'', PStr ''I''),
                    (''MES'', PStr ''abc'')]",
        OF _ l _ o _ t]
    by (simp add: flight_json_def int_of_str_examples)
  ultimately show ?thesis by blast
qed

section \<open>Properties of prediction\<close>

text \<open>
  C4. With no classifier loaded, \<open>predict\<close> returns one 0 for each row of the feature
  frame and raises nothing, whatever the library's method would do; and the request
  with the two records {Grupo LATAM, I, 7} and {Sky Airline, N, 12} is answered
  with [0, 0].
\<close>

theorem predict_without_model_is_all_zeros:
  "predict sk_predict None features = Inr (replicate (nrows features) 0)
   \<and> post_predict sk_predict None
        [''flights'' \<mapsto> PList [flight_json ''Grupo LATAM'' ''I'' (PInt 7),
                                 flight_json ''Sky Airline'' ''N'' (PInt 12)]] = Inr [0, 0]"
proof -
  have "validate [''flights'' \<mapsto> PList [flight_json ''Grupo LATAM'' ''I'' (PInt 7),
                                 flight_json ''Sky Airline'' ''N'' (PInt 12)]]
        = Inr [\<lparr> OPERA = ''Grupo LATAM'', TIPOVUELO = ''I'', MES = 7 \<rparr>,
               \<lparr> OPERA = ''Sky Airline'', TIPOVUELO = ''N'', MES = 12 \<rparr>]"
    by (simp add: validate_def validate_flight_json valid_ops_def)
  then show ?thesis
    by (simp add: post_predict_def preprocess_rows_def preprocess_frame predict_def)
qed

end
